theory Spec2Isabelle
  imports Complex_Main
begin

section \<open>Python values, exceptions and partial primitives\<close>

text \<open>
  The embedding follows \<^verbatim>\<open>src/umcp/core/__init__.py\<close> and
  \<^verbatim>\<open>src/umcp/validation/__init__.py\<close> (the stand-alone scripts
  \<^verbatim>\<open>collapse_validate.py\<close> and \<^verbatim>\<open>turbo_compat_harness.py\<close> carry the same
  formulas). A Python \<^verbatim>\<open>float\<close> is modelled by a \<^typ>\<open>real\<close>: rounding, infinities
  and NaN are outside the model, every arithmetic operation is the exact one. Each
  exception the code can raise is a value of \<open>error\<close>; a function that may raise
  returns \<open>error + 'a\<close> with \<open>Inl\<close> for the exception.
\<close>

datatype error = ValueError | ZeroDivisionError | KeyError | TypeError | IndexError

fun and_then :: "error + 'a \<Rightarrow> ('a \<Rightarrow> error + 'b) \<Rightarrow> error + 'b" where
  "and_then (Inl e) f = Inl e"
| "and_then (Inr v) f = f v"

text \<open>\<^verbatim>\<open>math.log(x)\<close> raises \<^verbatim>\<open>ValueError\<close> (math domain error) unless \<open>x > 0\<close>.\<close>

definition py_log :: "real \<Rightarrow> error + real" where
  "py_log x = (if x \<le> 0 then Inl ValueError else Inr (ln x))"

text \<open>Float division \<^verbatim>\<open>a / b\<close> raises \<^verbatim>\<open>ZeroDivisionError\<close> when \<open>b = 0\<close>.\<close>

definition py_div :: "real \<Rightarrow> real \<Rightarrow> error + real" where
  "py_div a b = (if b = 0 then Inl ZeroDivisionError else Inr (a / b))"

text \<open>List subscription \<^verbatim>\<open>xs[j]\<close>: a negative \<open>j\<close> counts from the end.\<close>

definition py_index :: "'a list \<Rightarrow> int \<Rightarrow> error + 'a" where
  "py_index xs j =
     (if 0 \<le> j \<and> j < int (length xs) then Inr (xs ! nat j)
      else if j < 0 \<and> - int (length xs) \<le> j then Inr (xs ! nat (int (length xs) + j))
      else Inl IndexError)"

text \<open>A list comprehension (or an appending loop) whose body may raise.\<close>

fun map_r :: "('a \<Rightarrow> error + 'b) \<Rightarrow> 'a list \<Rightarrow> error + 'b list" where
  "map_r f [] = Inr []"
| "map_r f (x # xs) =
     (case f x of Inl e \<Rightarrow> Inl e
      | Inr v \<Rightarrow> (case map_r f xs of Inl e \<Rightarrow> Inl e | Inr vs \<Rightarrow> Inr (v # vs)))"

text \<open>The literal \<^verbatim>\<open>1e-300\<close> that floors the argument of the clamped logarithms.\<close>

definition LOG_FLOOR :: real where
  "LOG_FLOOR = 1 / 10 ^ 300"

section \<open>Face potential module\<close>

definition clip01 :: "real \<Rightarrow> real" where
  "clip01 v = max 0 (min 1 v)"

definition phi :: "real \<Rightarrow> real \<Rightarrow> real \<Rightarrow> string \<Rightarrow> error + real" where
  "phi omega eps p face =
     (if face = ''exact'' then
        and_then (py_log (max (1 - omega) LOG_FLOOR)) (\<lambda>l1.
        and_then (py_log (max (1 - omega + eps) LOG_FLOOR)) (\<lambda>l2.
          Inr (2 * l1 + l2)))
      else and_then (py_log (max (1 - omega) LOG_FLOOR)) (\<lambda>l. Inr (p * l)))"

definition gamma_pointwise :: "real \<Rightarrow> real \<Rightarrow> real \<Rightarrow> string \<Rightarrow> error + real" where
  "gamma_pointwise omega eps p face =
     (if face = ''exact'' then
        and_then (py_div 2 (1 - omega)) (\<lambda>q1.
        and_then (py_div 1 (1 - omega + eps)) (\<lambda>q2.
          Inr (q1 + q2)))
      else py_div p (1 - omega))"

definition gamma_secant :: "real \<Rightarrow> real \<Rightarrow> real \<Rightarrow> real \<Rightarrow> string \<Rightarrow> error + real" where
  "gamma_secant om_minus om_plus eps p face =
     (let d_om = om_plus - om_minus in
      if \<bar>d_om\<bar> < 1 / 10 ^ 15 then gamma_pointwise om_minus eps p face
      else
        and_then (phi om_minus eps p face) (\<lambda>phi_minus.
        and_then (phi om_plus eps p face) (\<lambda>phi_plus.
          py_div (phi_minus - phi_plus) d_om)))"

section \<open>Invariant computation pipeline\<close>

text \<open>
  \<^verbatim>\<open>compute_omega\<close>: the list starts with \<open>0\<close> and the loop over
  \<^verbatim>\<open>range(1, len(y_series))\<close> appends one drift per index.
\<close>

definition compute_omega :: "real list \<Rightarrow> string \<Rightarrow> real list" where
  "compute_omega y_series policy =
     0 # map (\<lambda>i. if policy = ''pre_clip''
                   then \<bar>y_series ! i - y_series ! (i - 1)\<bar>
                   else \<bar>clip01 (y_series ! i) - clip01 (y_series ! (i - 1))\<bar>)
             [1..<length y_series]"

definition compute_fidelity :: "real list \<Rightarrow> real list" where
  "compute_fidelity omega = map (\<lambda>w. 1 - w) omega"

text \<open>\<^verbatim>\<open>compute_entropy\<close> calls \<^verbatim>\<open>math.log(1.0 - w + eps)\<close> with no floor.\<close>

definition compute_entropy :: "real list \<Rightarrow> real \<Rightarrow> error + real list" where
  "compute_entropy omega eps =
     map_r (\<lambda>w. and_then (py_log (1 - w + eps)) (\<lambda>l. Inr (- l))) omega"

text \<open>
  \<^verbatim>\<open>compute_curvature\<close>: for \<open>i \<ge> K\<close> the mean of the squared differences to the
  \<open>K\<close> previous samples; \<^verbatim>\<open>sum(diffs) / K\<close> divides by zero when \<open>K = 0\<close>.
  The window \<open>K\<close> is a natural number here (the default is 3).
\<close>

definition compute_curvature :: "real list \<Rightarrow> nat \<Rightarrow> error + real list" where
  "compute_curvature xhat K =
     map_r (\<lambda>i. if i < K then Inr 0
                else py_div (sum_list (map (\<lambda>k. (xhat ! i - xhat ! (i - k)) ^ 2) [1..<K + 1]))
                            (real K))
           [0..<length xhat]"

text \<open>
  The loop of \<^verbatim>\<open>compute_tau_ret\<close> over the candidate lags \<open>dt\<close>, with the
  counter \<open>seen\<close>. \<open>Some dt\<close> is the \<^verbatim>\<open>return dt\<close> inside the loop, \<open>None\<close> is
  the loop running to its end. The subscript \<^verbatim>\<open>xhat_series[t - dt]\<close> is Python's,
  so \<open>t - dt = -1\<close> reads the last element of the list.
\<close>

fun tau_scan :: "real \<Rightarrow> real list \<Rightarrow> nat \<Rightarrow> nat \<Rightarrow> real \<Rightarrow> nat list \<Rightarrow> nat
    \<Rightarrow> error + nat option" where
  "tau_scan eps_ret xhat_series t debounce_L target [] seen = Inr None"
| "tau_scan eps_ret xhat_series t debounce_L target (dt # dts) seen =
     (case py_index xhat_series (int t - int dt) of
        Inl e \<Rightarrow> Inl e
      | Inr v \<Rightarrow>
          if \<bar>target - v\<bar> < eps_ret then
            (if seen + 1 \<ge> debounce_L then Inr (Some dt)
             else tau_scan eps_ret xhat_series t debounce_L target dts (seen + 1))
          else tau_scan eps_ret xhat_series t debounce_L target dts 0)"

definition compute_tau_ret :: "real \<Rightarrow> real list \<Rightarrow> nat \<Rightarrow> nat \<Rightarrow> nat \<Rightarrow> error + nat" where
  "compute_tau_ret eps_ret xhat_series t max_h debounce_L =
     (if t = 0 then Inr 1
      else
        and_then (py_index xhat_series (int t)) (\<lambda>target.
        and_then (tau_scan eps_ret xhat_series t debounce_L target
                    [1..<min (t + 1) max_h + 1] 0) (\<lambda>found.
          Inr (case found of Some dt \<Rightarrow> dt | None \<Rightarrow> max_h))))"

text \<open>
  In the pipeline \<open>tau_R\<close> is a value returned by \<^verbatim>\<open>compute_tau_ret\<close>, a natural
  number, so \<^verbatim>\<open>1.0 + tau_R\<close> is positive and the two divisions below cannot raise.
\<close>

definition compute_integrity_coefficient ::
    "real \<Rightarrow> real \<Rightarrow> real \<Rightarrow> real \<Rightarrow> nat \<Rightarrow> real \<Rightarrow> real" where
  "compute_integrity_coefficient F S omega C tau_R alpha =
     F * exp (- S) * (1 - omega) * exp (- alpha * C / (1 + real tau_R))"

definition compute_kappa :: "real \<Rightarrow> error + real" where
  "compute_kappa IC = py_log (max IC LOG_FLOOR)"

definition compute_U :: "real \<Rightarrow> nat \<Rightarrow> real" where
  "compute_U C tau_R = C / (1 + real tau_R)"

definition classify_regime :: "real \<Rightarrow> real \<Rightarrow> real \<Rightarrow> real \<Rightarrow> real \<Rightarrow> string" where
  "classify_regime omega F S C IC =
     (if omega < 38 / 1000 \<and> F > 9 / 10 \<and> S < 15 / 100 \<and> C < 14 / 100 then ''Stable''
      else if omega \<ge> 30 / 100 then (if IC < 30 / 100 then ''Critical'' else ''Collapse'')
      else if 38 / 1000 \<le> omega \<and> omega < 30 / 100 then ''Watch''
      else ''Stable'')"

text \<open>
  The same chain of tests, returning which \<^verbatim>\<open>return\<close> statement of
  \<^verbatim>\<open>classify_regime\<close> is executed instead of its label (two of them return
  \<^verbatim>\<open>"Stable"\<close>).
\<close>

datatype gate = StableGate | CollapseBranch | WatchBranch | FallbackBranch

definition classify_gate :: "real \<Rightarrow> real \<Rightarrow> real \<Rightarrow> real \<Rightarrow> real \<Rightarrow> gate" where
  "classify_gate omega F S C IC =
     (if omega < 38 / 1000 \<and> F > 9 / 10 \<and> S < 15 / 100 \<and> C < 14 / 100 then StableGate
      else if omega \<ge> 30 / 100 then CollapseBranch
      else if 38 / 1000 \<le> omega \<and> omega < 30 / 100 then WatchBranch
      else FallbackBranch)"

text \<open>
  The loop of \<^verbatim>\<open>compute_invariants\<close> that fills \<open>tau_R\<close>, threading the moving
  average \<open>res_sigma\<close> (\<^verbatim>\<open>EMA_LAMBDA = 0.2\<close>, \<^verbatim>\<open>TAUR_K = 2.5\<close>,
  \<^verbatim>\<open>EPS_MIN = 5e-4\<close>, \<^verbatim>\<open>EPS_MAX = 0.07\<close>); \<^verbatim>\<open>compute_tau_ret\<close> is called
  with its defaults \<^verbatim>\<open>max_h = 600\<close> and \<^verbatim>\<open>debounce_L = 2\<close>. The indices come
  from \<^verbatim>\<open>range(len(xhat))\<close>, so \<open>xhat ! i\<close> and \<open>xhat ! (i - 1)\<close> are in range.
\<close>

fun tau_R_loop :: "real list \<Rightarrow> nat list \<Rightarrow> real \<Rightarrow> nat list \<Rightarrow> error + nat list" where
  "tau_R_loop xhat [] res_sigma tau_R = Inr tau_R"
| "tau_R_loop xhat (i # rest) res_sigma tau_R =
     (if i = 0 then tau_R_loop xhat rest 0 (tau_R @ [1])
      else
        let rres = xhat ! i - xhat ! (i - 1);
            res_sigma' = (2 / 10) * \<bar>rres\<bar> + (1 - 2 / 10) * res_sigma;
            eps_ret = max (5 / 10 ^ 4) (min ((25 / 10) * res_sigma') (7 / 100))
        in case compute_tau_ret eps_ret xhat i 600 2 of
             Inl e \<Rightarrow> Inl e
           | Inr tau_r \<Rightarrow> tau_R_loop xhat rest res_sigma' (tau_R @ [tau_r]))"

text \<open>One dictionary of the result list; the keys carry the prefix \<open>inv_\<close>.\<close>

record invariant_record =
  inv_t :: nat
  inv_x_raw :: real
  inv_y :: real
  inv_xhat :: real
  inv_omega :: real
  inv_F :: real
  inv_S :: real
  inv_C :: real
  inv_tau_R :: nat
  inv_IC :: real
  inv_kappa :: real
  inv_U :: real
  inv_regime :: string

definition compute_invariants ::
    "real list \<Rightarrow> real \<Rightarrow> real \<Rightarrow> real \<Rightarrow> nat \<Rightarrow> real \<Rightarrow> error + invariant_record list" where
  "compute_invariants x_raw a b eps K alpha =
     (if b \<le> 0 then Inl ValueError
      else
        let y = map (\<lambda>x. (x - a) / b) x_raw;
            xhat = map clip01 y;
            omega = compute_omega y ''pre_clip'';
            F = compute_fidelity omega
        in
        and_then (compute_entropy omega eps) (\<lambda>S.
        and_then (compute_curvature xhat K) (\<lambda>C.
        and_then (tau_R_loop xhat [0..<length xhat] 0 []) (\<lambda>tau_R.
          map_r (\<lambda>i.
              let IC = compute_integrity_coefficient (F ! i) (S ! i) (omega ! i) (C ! i)
                         (tau_R ! i) alpha
              in and_then (compute_kappa IC) (\<lambda>kappa.
                   Inr \<lparr>inv_t = i, inv_x_raw = x_raw ! i, inv_y = y ! i, inv_xhat = xhat ! i,
                        inv_omega = omega ! i, inv_F = F ! i, inv_S = S ! i, inv_C = C ! i,
                        inv_tau_R = tau_R ! i, inv_IC = IC, inv_kappa = kappa,
                        inv_U = compute_U (C ! i) (tau_R ! i),
                        inv_regime = classify_regime (omega ! i) (F ! i) (S ! i) (C ! i) IC\<rparr>))
            [0..<length x_raw]))))"

section \<open>Face selection and transport validation\<close>

definition choose_face :: "real \<Rightarrow> bool \<Rightarrow> real \<Rightarrow> real \<Rightarrow> string" where
  "choose_face omega guard_on eps pivot =
     (if guard_on \<or> omega \<ge> pivot then ''exact'' else ''normal'')"

definition transport_update_U ::
    "real \<Rightarrow> real \<Rightarrow> real \<Rightarrow> real \<Rightarrow> real \<Rightarrow> real \<Rightarrow> string \<Rightarrow> error + real" where
  "transport_update_U U_n om_n om_np1 alpha eps p face =
     and_then (gamma_secant om_n om_np1 eps p face) (\<lambda>Gam.
     and_then (py_div 1 alpha) (\<lambda>inv_alpha.
       Inr (U_n - inv_alpha * Gam * (om_np1 - om_n))))"

text \<open>
  A row is a dictionary from column names to cells. A cell read by
  \<^verbatim>\<open>csv.DictReader\<close> is a string or \<^verbatim>\<open>None\<close>; a row taken from
  \<^verbatim>\<open>compute_invariants\<close> holds floats and integers, and a caller may store a
  \<^verbatim>\<open>bool\<close> under \<^verbatim>\<open>guard_on\<close>.
\<close>

datatype pyval = PyStr string | PyNone | PyFloat real | PyInt int | PyBool bool

type_synonym row = "string \<rightharpoonup> pyval"

text \<open>\<^verbatim>\<open>row[key]\<close> raises \<^verbatim>\<open>KeyError\<close> for an absent key.\<close>

definition row_get :: "row \<Rightarrow> string \<Rightarrow> error + pyval" where
  "row_get r k = (case r k of None \<Rightarrow> Inl KeyError | Some v \<Rightarrow> Inr v)"

text \<open>
  The builtin \<^verbatim>\<open>float(v)\<close>. Parsing a string is Python's own and no code of the
  repository: it is the parameter \<open>parse\<close>, with \<open>None\<close> for a string that
  \<^verbatim>\<open>float\<close> rejects with \<^verbatim>\<open>ValueError\<close>. \<^verbatim>\<open>float(None)\<close> raises
  \<^verbatim>\<open>TypeError\<close>; an integer is converted, \<^verbatim>\<open>float(True)\<close> is \<open>1.0\<close> and
  \<^verbatim>\<open>float(False)\<close> is \<open>0.0\<close>.
\<close>

definition py_float :: "(string \<Rightarrow> real option) \<Rightarrow> pyval \<Rightarrow> error + real" where
  "py_float parse v =
     (case v of
        PyFloat x \<Rightarrow> Inr x
      | PyStr s \<Rightarrow> (case parse s of None \<Rightarrow> Inl ValueError | Some x \<Rightarrow> Inr x)
      | PyNone \<Rightarrow> Inl TypeError
      | PyInt i \<Rightarrow> Inr (real_of_int i)
      | PyBool b \<Rightarrow> Inr (if b then 1 else 0))"

text \<open>
  \<^verbatim>\<open>str.isspace\<close> on the code points below 256 (a \<^typ>\<open>char\<close> is one such code
  point), and \<^verbatim>\<open>str.strip()\<close>, which removes them from both ends.
\<close>

definition is_space :: "char \<Rightarrow> bool" where
  "is_space c =
     (let n = (of_char c :: nat)
      in (9 \<le> n \<and> n \<le> 13) \<or> (28 \<le> n \<and> n \<le> 32) \<or> n = 133 \<or> n = 160)"

definition strip :: "string \<Rightarrow> string" where
  "strip s = rev (dropWhile is_space (rev (dropWhile is_space s)))"

text \<open>
  The builtin \<^verbatim>\<open>str(v)\<close>: a string is itself, \<^verbatim>\<open>str(None)\<close> is
  \<^verbatim>\<open>"None"\<close>, a \<^verbatim>\<open>bool\<close> gives \<^verbatim>\<open>"True"\<close> or \<^verbatim>\<open>"False"\<close>, an integer its
  decimal digits with a leading minus sign when negative. The \<^verbatim>\<open>str\<close> of a float is
  not modelled (\<open>None\<close> below): it always holds a point, an exponent, \<^verbatim>\<open>inf\<close> or
  \<^verbatim>\<open>nan\<close>.
\<close>

fun nat_digits :: "nat \<Rightarrow> string" where
  "nat_digits n =
     (if n < 10 then [''0123456789'' ! n]
      else nat_digits (n div 10) @ [''0123456789'' ! (n mod 10)])"

definition int_str :: "int \<Rightarrow> string" where
  "int_str i = (if i < 0 then CHR ''-'' # nat_digits (nat (- i)) else nat_digits (nat i))"

fun py_str :: "pyval \<Rightarrow> string option" where
  "py_str (PyStr s) = Some s"
| "py_str PyNone = Some ''None''"
| "py_str (PyBool b) = Some (if b then ''True'' else ''False'')"
| "py_str (PyInt i) = Some (int_str i)"
| "py_str (PyFloat x) = None"

text \<open>
  \<^verbatim>\<open>_to_bool_flag(s)\<close> is \<^verbatim>\<open>str(s).strip() in {"1", "true", "True", "TRUE"}\<close>.
  For a float cell the result is \<open>False\<close>, since its \<^verbatim>\<open>str\<close> is none of the four
  words.
\<close>

definition to_bool_flag :: "pyval \<Rightarrow> bool" where
  "to_bool_flag v =
     (case py_str v of
        None \<Rightarrow> False
      | Some s \<Rightarrow> strip s \<in> set [''1'', ''true'', ''True'', ''TRUE''])"

text \<open>\<^verbatim>\<open>row.get("guard_on", "0")\<close> followed by \<^verbatim>\<open>_to_bool_flag\<close>.\<close>

definition row_guard :: "row \<Rightarrow> bool" where
  "row_guard r = to_bool_flag (case r ''guard_on'' of None \<Rightarrow> PyStr ''0'' | Some v \<Rightarrow> v)"

text \<open>
  The \<open>kappa\<close> of a row: the column \<^verbatim>\<open>kappa\<close> when it is present and neither
  the empty string nor \<^verbatim>\<open>None\<close>, otherwise the logarithm of \<^verbatim>\<open>IC\<close> clipped
  to \<open>[1e-300, 1]\<close>.
\<close>

definition row_kappa :: "(string \<Rightarrow> real option) \<Rightarrow> row \<Rightarrow> error + real" where
  "row_kappa parse r =
     (if r ''kappa'' \<noteq> None \<and> r ''kappa'' \<noteq> Some (PyStr []) \<and> r ''kappa'' \<noteq> Some PyNone
      then and_then (row_get r ''kappa'') (py_float parse)
      else
        and_then (row_get r ''IC'') (\<lambda>v.
        and_then (py_float parse v) (\<lambda>ic.
          py_log (min (max ic LOG_FLOOR) 1))))"

text \<open>
  The five values read from one row, in the order \<^verbatim>\<open>validate_step\<close> reads them
  (\<^verbatim>\<open>_row_fields\<close> in \<^verbatim>\<open>collapse_validate.py\<close>): \<open>(omega, C, tau_R, kappa, U)\<close>
  with \<open>U = C / (1.0 + tau_R)\<close>.
\<close>

definition row_fields ::
    "(string \<Rightarrow> real option) \<Rightarrow> row \<Rightarrow> error + (real \<times> real \<times> real \<times> real \<times> real)" where
  "row_fields parse r =
     and_then (and_then (row_get r ''omega'') (py_float parse)) (\<lambda>om.
     and_then (and_then (row_get r ''C'') (py_float parse)) (\<lambda>C.
     and_then (and_then (row_get r ''tau_R'') (py_float parse)) (\<lambda>tau.
     and_then (row_kappa parse r) (\<lambda>kappa.
     and_then (py_div C (1 + tau)) (\<lambda>U.
       Inr (om, C, tau, kappa, U))))))"

text \<open>
  The block of \<^verbatim>\<open>validate_step\<close> headed \<^verbatim>\<open>Transport prediction with face handling\<close>:
  the value assigned to \<^verbatim>\<open>U_pred\<close>.
\<close>

definition transport_prediction ::
    "real \<Rightarrow> real \<Rightarrow> real \<Rightarrow> real \<Rightarrow> real \<Rightarrow> real \<Rightarrow> real \<Rightarrow> string \<Rightarrow> string \<Rightarrow> error + real" where
  "transport_prediction U_n om_n om_np1 alpha eps p pivot face_n face_np1 =
     (if face_n \<noteq> face_np1 then
        (let om_mid = pivot in
         if \<not> (min om_n om_np1 \<le> om_mid \<and> om_mid \<le> max om_n om_np1) then
           transport_update_U U_n om_n om_np1 alpha eps p face_n
         else
           and_then (transport_update_U U_n om_n om_mid alpha eps p face_n) (\<lambda>U_mid.
             transport_update_U U_mid om_mid om_np1 alpha eps p face_np1))
      else transport_update_U U_n om_n om_np1 alpha eps p face_n)"

text \<open>The dictionary returned by \<^verbatim>\<open>validate_step\<close>; the keys carry the prefix \<open>vr_\<close>.\<close>

record validation_record =
  vr_omega_n :: real
  vr_omega_np1 :: real
  vr_face_n :: string
  vr_face_np1 :: string
  vr_U_n :: real
  vr_U_np1 :: real
  vr_U_pred :: real
  vr_rT :: real
  vr_rW :: real
  vr_okT :: real
  vr_okW :: real

definition validate_step ::
    "(string \<Rightarrow> real option) \<Rightarrow> row \<Rightarrow> row \<Rightarrow> real \<Rightarrow> real \<Rightarrow> real \<Rightarrow> real \<Rightarrow> real \<Rightarrow> real
     \<Rightarrow> error + validation_record" where
  "validate_step parse row_n row_np1 alpha eps p tolT tolW pivot =
     and_then (row_fields parse row_n) (\<lambda>(om_n, C_n, tau_n, k_n, U_n).
     and_then (row_fields parse row_np1) (\<lambda>(om_np1, C_np1, tau_np1, k_np1, U_np1).
       let guard_n = row_guard row_n;
           guard_np1 = row_guard row_np1;
           face_n = choose_face om_n guard_n eps pivot;
           face_np1 = choose_face om_np1 guard_np1 eps pivot
       in
       and_then (transport_prediction U_n om_n om_np1 alpha eps p pivot face_n face_np1)
         (\<lambda>U_pred.
            let rT = U_np1 - U_pred;
                rW = k_np1 - k_n;
                okT = (if \<bar>rT\<bar> \<le> tolT then 1 else 0);
                okW = (if \<bar>rW\<bar> \<le> tolW then 1 else 0)
            in Inr \<lparr>vr_omega_n = om_n, vr_omega_np1 = om_np1, vr_face_n = face_n,
                    vr_face_np1 = face_np1, vr_U_n = U_n, vr_U_np1 = U_np1,
                    vr_U_pred = U_pred, vr_rT = rT, vr_rW = rW, vr_okT = okT,
                    vr_okW = okW\<rparr>)))"

section \<open>Sequence validation\<close>

text \<open>\<^verbatim>\<open>validate_sequence\<close> stores the index under the key \<^verbatim>\<open>idx\<close> of each result.\<close>

record indexed_record = validation_record +
  vr_idx :: nat

record summary =
  total_steps :: nat
  transport_pass :: nat
  weld_pass :: nat
  transport_pass_rate :: real
  weld_pass_rate :: real

definition with_idx :: "validation_record \<Rightarrow> nat \<Rightarrow> indexed_record" where
  "with_idx res i = validation_record.extend res \<lparr>vr_idx = i\<rparr>"

text \<open>
  The loop \<^verbatim>\<open>for i in range(total)\<close> with its accumulators; \<open>i + 1 \<le> total\<close> is
  below the length of \<open>data\<close>, so both subscripts are in range.
\<close>

fun validate_loop ::
    "(string \<Rightarrow> real option) \<Rightarrow> real \<Rightarrow> real \<Rightarrow> real \<Rightarrow> real \<Rightarrow> real \<Rightarrow> real \<Rightarrow> row list
     \<Rightarrow> nat list \<Rightarrow> indexed_record list \<Rightarrow> nat \<Rightarrow> nat
     \<Rightarrow> error + (indexed_record list \<times> nat \<times> nat)" where
  "validate_loop parse alpha eps p tolT tolW pivot data [] results passes_T passes_W =
     Inr (results, passes_T, passes_W)"
| "validate_loop parse alpha eps p tolT tolW pivot data (i # rest) results passes_T passes_W =
     (case validate_step parse (data ! i) (data ! (i + 1)) alpha eps p tolT tolW pivot of
        Inl e \<Rightarrow> Inl e
      | Inr res \<Rightarrow>
          validate_loop parse alpha eps p tolT tolW pivot data rest
            (results @ [with_idx res i])
            (passes_T + (if vr_okT res = 1 then 1 else 0))
            (passes_W + (if vr_okW res = 1 then 1 else 0)))"

definition validate_sequence ::
    "(string \<Rightarrow> real option) \<Rightarrow> row list \<Rightarrow> real \<Rightarrow> real \<Rightarrow> real \<Rightarrow> real \<Rightarrow> real \<Rightarrow> real
     \<Rightarrow> error + (indexed_record list \<times> summary)" where
  "validate_sequence parse data alpha eps p tolT tolW pivot =
     (if length data < 2 then Inl ValueError
      else
        let total = length data - 1 in
        and_then (validate_loop parse alpha eps p tolT tolW pivot data [0..<total] [] 0 0)
          (\<lambda>(results, passes_T, passes_W).
             Inr (results,
                  \<lparr>total_steps = total, transport_pass = passes_T, weld_pass = passes_W,
                   transport_pass_rate =
                     (if total > 0 then real passes_T / real total else 0),
                   weld_pass_rate =
                     (if total > 0 then real passes_W / real total else 0)\<rparr>)))"

section \<open>Rows used as concrete inputs\<close>

text \<open>An audit row with float cells and the four columns \<open>omega\<close>, \<open>C\<close>, \<open>tau_R\<close>, \<open>kappa\<close>.\<close>

definition audit_row :: "real \<Rightarrow> real \<Rightarrow> real \<Rightarrow> real \<Rightarrow> row" where
  "audit_row om c tau k =
     [''omega'' \<mapsto> PyFloat om, ''C'' \<mapsto> PyFloat c, ''tau_R'' \<mapsto> PyFloat tau,
      ''kappa'' \<mapsto> PyFloat k]"

text \<open>
  The same four columns as the strings of a CSV file, and the value of \<^verbatim>\<open>float\<close>
  on the strings used below.
\<close>

definition csv_row :: "string \<Rightarrow> string \<Rightarrow> string \<Rightarrow> string \<Rightarrow> row" where
  "csv_row om c tau k =
     [''omega'' \<mapsto> PyStr om, ''C'' \<mapsto> PyStr c, ''tau_R'' \<mapsto> PyStr tau,
      ''kappa'' \<mapsto> PyStr k]"

definition float_of_cell :: "string \<Rightarrow> real option" where
  "float_of_cell s =
     (if s = ''0.5'' then Some (5 / 10)
      else if s = ''0.2'' then Some (2 / 10)
      else if s = ''1'' then Some 1
      else if s = ''-0.1'' then Some (- (1 / 10))
      else None)"




section \<open>The return time as the specification words it\<close>

text \<open>
  The return time as section 4.1, step 5 of the specification words it, for comparison
  with \<^verbatim>\<open>compute_tau_ret\<close>: the candidate lags are the \<open>dt \<le> min(i, 600)\<close>. The
  scan, its counter and the value on exhaustion are those of the code; only the range
  of candidates differs (the code runs \<open>dt\<close> up to \<open>min(i + 1, 600)\<close>).
\<close>

definition spec_tau_ret :: "real \<Rightarrow> real list \<Rightarrow> nat \<Rightarrow> nat \<Rightarrow> nat \<Rightarrow> error + nat" where
  "spec_tau_ret eps_ret xhat_series t max_h debounce_L =
     (if t = 0 then Inr 1
      else
        and_then (py_index xhat_series (int t)) (\<lambda>target.
        and_then (tau_scan eps_ret xhat_series t debounce_L target
                    [1..<min t max_h + 1] 0) (\<lambda>found.
          Inr (case found of Some dt \<Rightarrow> dt | None \<Rightarrow> max_h))))"


section \<open>Auxiliary facts\<close>

lemma LOG_FLOOR_pos: "0 < LOG_FLOOR"
  by (simp add: LOG_FLOOR_def)

lemma to_bool_flag_simps [simp]:
  "to_bool_flag (PyStr s) = (strip s \<in> set [''1'', ''true'', ''True'', ''TRUE''])"
  "to_bool_flag PyNone = False"
  "to_bool_flag (PyFloat x) = False"
  "to_bool_flag (PyBool b) = b"
  "to_bool_flag (PyInt i) = (strip (int_str i) \<in> set [''1'', ''true'', ''True'', ''TRUE''])"
  by (simp_all add: to_bool_flag_def strip_def is_space_def)

lemma to_bool_flag_py_str:
  "py_str v = Some s \<Longrightarrow>
   to_bool_flag v = (strip s \<in> {''1'', ''true'', ''True'', ''TRUE''})"
  by (simp add: to_bool_flag_def)

lemma py_log_floored: "py_log (max x LOG_FLOOR) = Inr (ln (max x LOG_FLOOR))"
  using LOG_FLOOR_pos by (simp add: py_log_def not_le less_max_iff_disj)

lemma and_then_Inr_iff: "and_then m f = Inr r \<longleftrightarrow> (\<exists>v. m = Inr v \<and> f v = Inr r)"
  by (cases m) simp_all

lemma and_then_Inl_iff:
  "and_then m f = Inl e \<longleftrightarrow> m = Inl e \<or> (\<exists>v. m = Inr v \<and> f v = Inl e)"
  by (cases m) simp_all


text \<open>The clamped logarithms are always in the domain of \<^verbatim>\<open>math.log\<close>.\<close>

lemma phi_value:
  "phi omega eps p face =
     Inr (if face = ''exact''
          then 2 * ln (max (1 - omega) LOG_FLOOR) + ln (max (1 - omega + eps) LOG_FLOOR)
          else p * ln (max (1 - omega) LOG_FLOOR))"
  by (simp add: phi_def py_log_floored)

lemma gamma_pointwise_Inl_iff:
  "gamma_pointwise omega eps p face = Inl e \<longleftrightarrow>
     e = ZeroDivisionError \<and>
     (if face = ''exact'' then 1 - omega = 0 \<or> 1 - omega + eps = 0 else 1 - omega = 0)"
  by (auto simp add: gamma_pointwise_def py_div_def)


section \<open>Face potential: equivalence, degenerate secant, poles\<close>

text \<open>
  C5. With \<open>eps = 0\<close> and \<open>p = 3\<close> the potential of the exact face,
  \<open>2 ln(1 - omega) + ln(1 - omega + eps)\<close>, and the potential of the normal face,
  \<open>p ln(1 - omega)\<close>, are the same returned value. The equality holds for every
  \<open>omega\<close>, in particular on \<open>[0, 1)\<close>; each logarithm is taken of
  \<open>max (1 - omega) 1e-300\<close>, as in the code.
\<close>

theorem phi_face_equivalence:
  "phi omega 0 3 ''exact'' = phi omega 0 3 ''normal'' \<and>
   phi omega 0 3 ''normal'' = Inr (3 * ln (max (1 - omega) LOG_FLOOR))"
  by (simp add: phi_value)

text \<open>
  C8. On a degenerate interval the secant rate is the pointwise rate,
  \<open>gamma_secant w w = gamma_pointwise w\<close> (as results: both raise at a pole), and
  whenever \<open>|om_plus - om_minus| < 1e-15\<close> the secant rate is the pointwise rate at
  \<open>om_minus\<close>, with no division by \<open>om_plus - om_minus\<close>.
\<close>

theorem gamma_secant_degenerate:
  "gamma_secant w w eps p face = gamma_pointwise w eps p face \<and>
   (\<bar>om_plus - om_minus\<bar> < 1 / 10 ^ 15 \<longrightarrow>
      gamma_secant om_minus om_plus eps p face = gamma_pointwise om_minus eps p face)"
  by (simp add: gamma_secant_def)

theorem gamma_secant_degenerate_witness:
  "\<bar>(1 / 2 + 1 / 10 ^ 16) - 1 / 2 :: real\<bar> < 1 / 10 ^ 15 \<and>
   gamma_secant (1 / 2) (1 / 2 + 1 / 10 ^ 16) (1 / 10 ^ 8) 3 ''normal'' = Inr 6 \<and>
   gamma_secant (1 / 2) (1 / 2) (1 / 10 ^ 8) 3 ''normal'' = Inr 6"
  using gamma_secant_degenerate
    [of "1 / 2" "1 / 10 ^ 8" 3 "''normal''" "1 / 2 + 1 / 10 ^ 16" "1 / 2"]
  by (simp add: gamma_pointwise_def py_div_def)

text \<open>
  C10. \<^verbatim>\<open>gamma_pointwise\<close> has no floor on its divisors, unlike \<^verbatim>\<open>phi\<close>, which
  always returns. On the normal face it raises \<^verbatim>\<open>ZeroDivisionError\<close> at
  \<open>omega = 1\<close>; on the exact face it raises exactly when \<open>1 - omega = 0\<close> or
  \<open>1 - omega + eps = 0\<close>. When \<open>|om_plus - om_minus| < 1e-15\<close> and \<open>om_minus\<close> is
  such a pole of the face, \<^verbatim>\<open>gamma_secant\<close> raises too, and with it
  \<^verbatim>\<open>transport_update_U\<close>.
\<close>

theorem gamma_pointwise_poles:
  "gamma_pointwise 1 eps p ''normal'' = Inl ZeroDivisionError \<and>
   (gamma_pointwise omega eps p ''exact'' = Inl ZeroDivisionError
      \<longleftrightarrow> 1 - omega = 0 \<or> 1 - omega + eps = 0) \<and>
   (\<bar>om_plus - om_minus\<bar> < 1 / 10 ^ 15 \<and>
    (if face = ''exact'' then 1 - om_minus = 0 \<or> 1 - om_minus + eps = 0 else 1 - om_minus = 0)
      \<longrightarrow> gamma_secant om_minus om_plus eps p face = Inl ZeroDivisionError \<and>
          transport_update_U U_n om_minus om_plus alpha eps p face = Inl ZeroDivisionError) \<and>
   (\<exists>v. phi omega eps p face = Inr v)"
proof -
  have pole: "gamma_pointwise om_minus eps p face = Inl ZeroDivisionError"
    if "if face = ''exact'' then 1 - om_minus = 0 \<or> 1 - om_minus + eps = 0 else 1 - om_minus = 0"
    using that by (simp add: gamma_pointwise_Inl_iff)
  have "gamma_pointwise 1 eps p ''normal'' = Inl ZeroDivisionError"
    by (simp add: gamma_pointwise_Inl_iff)
  moreover have "gamma_pointwise omega eps p ''exact'' = Inl ZeroDivisionError
      \<longleftrightarrow> 1 - omega = 0 \<or> 1 - omega + eps = 0"
    by (simp add: gamma_pointwise_Inl_iff)
  moreover have "\<exists>v. phi omega eps p face = Inr v"
    by (simp add: phi_value)
  moreover have "\<bar>om_plus - om_minus\<bar> < 1 / 10 ^ 15 \<and>
    (if face = ''exact'' then 1 - om_minus = 0 \<or> 1 - om_minus + eps = 0 else 1 - om_minus = 0)
      \<longrightarrow> gamma_secant om_minus om_plus eps p face = Inl ZeroDivisionError \<and>
          transport_update_U U_n om_minus om_plus alpha eps p face = Inl ZeroDivisionError"
  proof (intro impI)
    assume a: "\<bar>om_plus - om_minus\<bar> < 1 / 10 ^ 15 \<and>
      (if face = ''exact'' then 1 - om_minus = 0 \<or> 1 - om_minus + eps = 0 else 1 - om_minus = 0)"
    then have gp: "gamma_pointwise om_minus eps p face = Inl ZeroDivisionError"
      using pole by blast
    have gs: "gamma_secant om_minus om_plus eps p face = Inl ZeroDivisionError"
      using a gp by (simp add: gamma_secant_def)
    then show "gamma_secant om_minus om_plus eps p face = Inl ZeroDivisionError \<and>
          transport_update_U U_n om_minus om_plus alpha eps p face = Inl ZeroDivisionError"
      by (simp add: transport_update_U_def)
  qed
  ultimately show ?thesis by blast
qed

theorem gamma_pointwise_poles_witness:
  "\<bar>1 - 1 :: real\<bar> < 1 / 10 ^ 15 \<and>
   gamma_pointwise 1 (1 / 10 ^ 8) 3 ''normal'' = Inl ZeroDivisionError \<and>
   gamma_pointwise 1 (1 / 10 ^ 8) 3 ''exact'' = Inl ZeroDivisionError \<and>
   gamma_secant 1 1 (1 / 10 ^ 8) 3 ''exact'' = Inl ZeroDivisionError \<and>
   transport_update_U (1 / 10) 1 1 1 (1 / 10 ^ 8) 3 ''exact'' = Inl ZeroDivisionError"
  using gamma_pointwise_poles [of "1 / 10 ^ 8" 3 1 1 1 "''exact''" "1 / 10" 1]
  by simp

section \<open>Regime classification\<close>

text \<open>
  C6, as stated, fails: with a non-negative \<open>omega\<close> below \<open>0.038\<close> and a curvature
  of \<open>0.2\<close> the Stable gate is not passed, \<open>omega\<close> is in neither of the two other
  ranges, and the final fallback \<^verbatim>\<open>return "Stable"\<close> is executed.
\<close>

theorem classify_fallback_nonneg_counterexample:
  "(0::real) \<le> 1 / 100 \<and>
   classify_gate (1 / 100) (99 / 100) (1 / 100) (2 / 10) (9 / 10) = FallbackBranch \<and>
   classify_regime (1 / 100) (99 / 100) (1 / 100) (2 / 10) (9 / 10) = ''Stable''"
  by (simp add: classify_gate_def classify_regime_def)

text \<open>
  C6, amended. For all real \<open>omega\<close>, \<open>F\<close>, \<open>S\<close>, \<open>C\<close>, \<open>IC\<close> the fallback branch is
  reached exactly when \<open>omega < 0.038\<close> and the Stable gate fails (\<open>F \<le> 0.9\<close> or
  \<open>S \<ge> 0.15\<close> or \<open>C \<ge> 0.14\<close>), whatever the sign of \<open>omega\<close>; the Stable gate is
  taken exactly when all four of its tests hold, the Collapse/Critical branch exactly
  when \<open>omega \<ge> 0.30\<close> and the Watch branch exactly when \<open>0.038 \<le> omega < 0.30\<close>.
  The label returned is the one of the branch taken.
\<close>

theorem classify_fallback_iff:
  "(classify_gate omega F S C IC = FallbackBranch
      \<longleftrightarrow> omega < 38 / 1000 \<and> \<not> (F > 9 / 10 \<and> S < 15 / 100 \<and> C < 14 / 100)) \<and>
   (classify_gate omega F S C IC = StableGate
      \<longleftrightarrow> omega < 38 / 1000 \<and> F > 9 / 10 \<and> S < 15 / 100 \<and> C < 14 / 100) \<and>
   (classify_gate omega F S C IC = CollapseBranch \<longleftrightarrow> 30 / 100 \<le> omega) \<and>
   (classify_gate omega F S C IC = WatchBranch \<longleftrightarrow> 38 / 1000 \<le> omega \<and> omega < 30 / 100) \<and>
   classify_regime omega F S C IC =
     (case classify_gate omega F S C IC of
        StableGate \<Rightarrow> ''Stable''
      | CollapseBranch \<Rightarrow> (if IC < 30 / 100 then ''Critical'' else ''Collapse'')
      | WatchBranch \<Rightarrow> ''Watch''
      | FallbackBranch \<Rightarrow> ''Stable'')"
  by (auto simp add: classify_gate_def classify_regime_def)

theorem classify_fallback_iff_witness:
  "classify_gate (- 1) (1 / 2) 0 0 1 = FallbackBranch \<and>
   classify_gate (1 / 100) (99 / 100) (1 / 100) (2 / 10) (9 / 10) = FallbackBranch"
  using classify_fallback_iff [of "- 1" "1 / 2" 0 0 1]
        classify_fallback_iff [of "1 / 100" "99 / 100" "1 / 100" "2 / 10" "9 / 10"]
  by simp

section \<open>Transport validation of one step\<close>

lemma with_idx_simps:
  "vr_idx (with_idx res i) = i"
  "vr_okT (with_idx res i) = vr_okT res"
  "vr_okW (with_idx res i) = vr_okW res"
  "validation_record.truncate (with_idx res i) = res"
  by (simp_all add: with_idx_def validation_record.defs indexed_record.defs)

lemma row_fields_Inr_iff:
  "row_fields parse r = Inr (om, C, tau, kappa, U) \<longleftrightarrow>
     and_then (row_get r ''omega'') (py_float parse) = Inr om \<and>
     and_then (row_get r ''C'') (py_float parse) = Inr C \<and>
     and_then (row_get r ''tau_R'') (py_float parse) = Inr tau \<and>
     row_kappa parse r = Inr kappa \<and> 1 + tau \<noteq> 0 \<and> U = C / (1 + tau)"
  unfolding row_fields_def
  by (auto simp add: and_then_Inr_iff py_div_def)


lemma validate_step_InrD:
  assumes "validate_step parse row_n row_np1 alpha eps p tolT tolW pivot = Inr res"
  obtains om_n C_n tau_n k_n U_n om_np1 C_np1 tau_np1 k_np1 U_np1 U_pred where
    "row_fields parse row_n = Inr (om_n, C_n, tau_n, k_n, U_n)"
    "row_fields parse row_np1 = Inr (om_np1, C_np1, tau_np1, k_np1, U_np1)"
    "transport_prediction U_n om_n om_np1 alpha eps p pivot
        (choose_face om_n (row_guard row_n) eps pivot)
        (choose_face om_np1 (row_guard row_np1) eps pivot) = Inr U_pred"
    "res = \<lparr>vr_omega_n = om_n, vr_omega_np1 = om_np1,
             vr_face_n = choose_face om_n (row_guard row_n) eps pivot,
             vr_face_np1 = choose_face om_np1 (row_guard row_np1) eps pivot,
             vr_U_n = U_n, vr_U_np1 = U_np1,
             vr_U_pred = U_pred, vr_rT = U_np1 - U_pred,
             vr_rW = k_np1 - k_n,
             vr_okT = (if \<bar>U_np1 - U_pred\<bar> \<le> tolT then 1 else 0),
             vr_okW = (if \<bar>k_np1 - k_n\<bar> \<le> tolW then 1 else 0)\<rparr>"
proof (cases "row_fields parse row_n")
  case (Inl e)
  with assms show ?thesis by (simp add: validate_step_def)
next
  case n: (Inr fn)
  obtain om_n C_n tau_n k_n U_n where fn: "fn = (om_n, C_n, tau_n, k_n, U_n)"
    by (cases fn) auto
  show ?thesis
  proof (cases "row_fields parse row_np1")
    case (Inl e)
    with assms n fn show ?thesis by (simp add: validate_step_def)
  next
    case np1: (Inr fnp1)
    obtain om_np1 C_np1 tau_np1 k_np1 U_np1
      where fnp1: "fnp1 = (om_np1, C_np1, tau_np1, k_np1, U_np1)"
      by (cases fnp1) auto
    show ?thesis
    proof (cases "transport_prediction U_n om_n om_np1 alpha eps p pivot
        (choose_face om_n (row_guard row_n) eps pivot)
        (choose_face om_np1 (row_guard row_np1) eps pivot)")
      case (Inl e)
      with assms n fn np1 fnp1 show ?thesis
        by (simp add: validate_step_def Let_def split del: if_split)
    next
      case (Inr U_pred)
      with assms n fn np1 fnp1 have "res = \<lparr>vr_omega_n = om_n, vr_omega_np1 = om_np1,
             vr_face_n = choose_face om_n (row_guard row_n) eps pivot,
             vr_face_np1 = choose_face om_np1 (row_guard row_np1) eps pivot,
             vr_U_n = U_n, vr_U_np1 = U_np1,
             vr_U_pred = U_pred, vr_rT = U_np1 - U_pred,
             vr_rW = k_np1 - k_n,
             vr_okT = (if \<bar>U_np1 - U_pred\<bar> \<le> tolT then 1 else 0),
             vr_okW = (if \<bar>k_np1 - k_n\<bar> \<le> tolW then 1 else 0)\<rparr>"
        by (simp add: validate_step_def Let_def split del: if_split)
      then show ?thesis
        using that n np1 Inr unfolding fn fnp1 by blast
    qed
  qed
qed

lemma row_guard_missing: "r ''guard_on'' = None \<Longrightarrow> row_guard r = False"
  by (simp add: row_guard_def strip_def is_space_def)

lemmas step_eval =
  validate_step_def row_fields_def row_get_def py_float_def row_kappa_def audit_row_def
  csv_row_def float_of_cell_def py_div_def row_guard_def strip_def is_space_def choose_face_def
  transport_prediction_def transport_update_U_def gamma_secant_def gamma_pointwise_def
  Let_def



section \<open>Sequence validation: size check, records and summary\<close>

lemma validate_loop_Inr:
  "validate_loop parse alpha eps p tolT tolW pivot data idxs results pT pW = Inr (results', pT', pW')
   \<Longrightarrow> \<exists>new. results' = results @ new \<and> map vr_idx new = idxs \<and>
        (\<forall>k<length idxs. validate_step parse (data ! (idxs ! k)) (data ! (idxs ! k + 1))
             alpha eps p tolT tolW pivot = Inr (validation_record.truncate (new ! k))) \<and>
        pT' = pT + length (filter (\<lambda>r. vr_okT r = 1) new) \<and>
        pW' = pW + length (filter (\<lambda>r. vr_okW r = 1) new)"
proof (induction idxs arbitrary: results pT pW)
  case Nil
  then show ?case by simp
next
  case (Cons i rest)
  from Cons.prems obtain res where
    step: "validate_step parse (data ! i) (data ! (i + 1)) alpha eps p tolT tolW pivot = Inr res"
    and loop: "validate_loop parse alpha eps p tolT tolW pivot data rest
            (results @ [with_idx res i])
            (pT + (if vr_okT res = 1 then 1 else 0))
            (pW + (if vr_okW res = 1 then 1 else 0)) = Inr (results', pT', pW')"
    by (auto split: sum.splits)
  from Cons.IH [OF loop] obtain new where
    new: "results' = (results @ [with_idx res i]) @ new" "map vr_idx new = rest"
      "\<forall>k<length rest. validate_step parse (data ! (rest ! k)) (data ! (rest ! k + 1))
             alpha eps p tolT tolW pivot = Inr (validation_record.truncate (new ! k))"
      "pT' = pT + (if vr_okT res = 1 then 1 else 0) + length (filter (\<lambda>r. vr_okT r = 1) new)"
      "pW' = pW + (if vr_okW res = 1 then 1 else 0) + length (filter (\<lambda>r. vr_okW r = 1) new)"
    by blast
  show ?case
  proof (intro exI [of _ "with_idx res i # new"] conjI allI impI)
    show "results' = results @ with_idx res i # new" using new(1) by simp
    show "map vr_idx (with_idx res i # new) = i # rest" using new(2) by (simp add: with_idx_simps)
    show "pT' = pT + length (filter (\<lambda>r. vr_okT r = 1) (with_idx res i # new))"
      using new(4) by (simp add: with_idx_simps)
    show "pW' = pW + length (filter (\<lambda>r. vr_okW r = 1) (with_idx res i # new))"
      using new(5) by (simp add: with_idx_simps)
  next
    fix k assume "k < length (i # rest)"
    then show "validate_step parse (data ! ((i # rest) ! k)) (data ! ((i # rest) ! k + 1))
             alpha eps p tolT tolW pivot
           = Inr (validation_record.truncate ((with_idx res i # new) ! k))"
      using step new(3) by (cases k) (simp_all add: with_idx_simps)
  qed
qed

lemma validate_loop_total:
  "(\<forall>k<length idxs. \<exists>res. validate_step parse (data ! (idxs ! k)) (data ! (idxs ! k + 1))
             alpha eps p tolT tolW pivot = Inr res)
   \<Longrightarrow> \<exists>out. validate_loop parse alpha eps p tolT tolW pivot data idxs results pT pW = Inr out"
proof (induction idxs arbitrary: results pT pW)
  case Nil
  then show ?case by simp
next
  case (Cons i rest)
  from Cons.prems [rule_format, of 0] obtain res where
    step: "validate_step parse (data ! i) (data ! (i + 1)) alpha eps p tolT tolW pivot = Inr res"
    by auto
  have "\<forall>k<length rest. \<exists>res. validate_step parse (data ! (rest ! k)) (data ! (rest ! k + 1))
             alpha eps p tolT tolW pivot = Inr res"
    using Cons.prems by (metis Suc_less_eq length_Cons nth_Cons_Suc)
  from Cons.IH [OF this] show ?case using step by simp
qed

lemma validate_loop_raises:
  "k < length idxs \<Longrightarrow>
   validate_step parse (data ! (idxs ! k)) (data ! (idxs ! k + 1))
             alpha eps p tolT tolW pivot = Inl e
   \<Longrightarrow> \<exists>e'. validate_loop parse alpha eps p tolT tolW pivot data idxs results pT pW = Inl e'"
proof (induction idxs arbitrary: results pT pW k)
  case Nil
  then show ?case by simp
next
  case (Cons i rest)
  show ?case
  proof (cases k)
    case 0
    with Cons.prems show ?thesis by simp
  next
    case (Suc j)
    with Cons.prems Cons.IH [of j] show ?thesis
      by (auto split: sum.splits)
  qed
qed

text \<open>
  C7, as stated, fails: two well-formed rows with \<open>omega = 1\<close> make the single step
  raise \<^verbatim>\<open>ZeroDivisionError\<close> (the exact face has a pole at \<open>omega = 1\<close>), so a
  sequence of length \<open>2\<close> produces no record.
\<close>

theorem validate_sequence_raises_counterexample:
  "2 \<le> length [audit_row 1 (1 / 5) 1 (- (1 / 10)), audit_row 1 (1 / 5) 1 (- (1 / 10))] \<and>
   validate_sequence (\<lambda>s. None)
     [audit_row 1 (1 / 5) 1 (- (1 / 10)), audit_row 1 (1 / 5) 1 (- (1 / 10))]
     1 (1 / 10 ^ 8) 3 (1 / 10 ^ 9) (1 / 10 ^ 12) (99 / 100) = Inl ZeroDivisionError"
  by (simp add: validate_sequence_def step_eval)

text \<open>
  C7, amended. A sequence of fewer than two rows is refused with \<^verbatim>\<open>ValueError\<close>
  and yields no record. For \<open>n \<ge> 2\<close> rows such that \<^verbatim>\<open>validate_step\<close> returns on
  every adjacent pair, \<^verbatim>\<open>validate_sequence\<close> returns; if \<^verbatim>\<open>validate_step\<close>
  raises on some pair, \<^verbatim>\<open>validate_sequence\<close> raises and yields no record. Whenever
  it returns there are exactly \<open>n - 1\<close> records, the record at position \<open>i\<close> is the
  result of \<^verbatim>\<open>validate_step\<close> on rows \<open>i\<close> and \<open>i + 1\<close> with \<open>idx = i\<close>, and the
  summary has \<open>total_steps = n - 1\<close>, \<open>transport_pass\<close> the number of records with
  \<open>okT = 1\<close> and \<open>weld_pass\<close> the number of records with \<open>okW = 1\<close>.
\<close>

theorem validate_sequence_contract:
  "(length data < 2 \<longrightarrow>
      validate_sequence parse data alpha eps p tolT tolW pivot = Inl ValueError) \<and>
   (2 \<le> length data \<and>
    (\<forall>i<length data - 1. \<exists>res.
        validate_step parse (data ! i) (data ! (i + 1)) alpha eps p tolT tolW pivot = Inr res)
      \<longrightarrow> (\<exists>results summ.
            validate_sequence parse data alpha eps p tolT tolW pivot = Inr (results, summ))) \<and>
   (2 \<le> length data \<and>
    (\<exists>i<length data - 1. \<exists>e.
        validate_step parse (data ! i) (data ! (i + 1)) alpha eps p tolT tolW pivot = Inl e)
      \<longrightarrow> (\<exists>e. validate_sequence parse data alpha eps p tolT tolW pivot = Inl e)) \<and>
   (validate_sequence parse data alpha eps p tolT tolW pivot = Inr (results, summ) \<longrightarrow>
      2 \<le> length data \<and>
      length results = length data - 1 \<and>
      map vr_idx results = [0..<length data - 1] \<and>
      (\<forall>i<length data - 1.
          validate_step parse (data ! i) (data ! (i + 1)) alpha eps p tolT tolW pivot
            = Inr (validation_record.truncate (results ! i))) \<and>
      total_steps summ = length data - 1 \<and>
      transport_pass summ = length (filter (\<lambda>r. vr_okT r = 1) results) \<and>
      weld_pass summ = length (filter (\<lambda>r. vr_okW r = 1) results))"
proof (intro conjI impI)
  assume "length data < 2"
  then show "validate_sequence parse data alpha eps p tolT tolW pivot = Inl ValueError"
    by (simp add: validate_sequence_def)
next
  assume a: "2 \<le> length data \<and>
    (\<forall>i<length data - 1. \<exists>res.
        validate_step parse (data ! i) (data ! (i + 1)) alpha eps p tolT tolW pivot = Inr res)"
  then have "\<forall>k<length [0..<length data - 1]. \<exists>res.
      validate_step parse (data ! ([0..<length data - 1] ! k))
        (data ! ([0..<length data - 1] ! k + 1)) alpha eps p tolT tolW pivot = Inr res"
    by simp
  from validate_loop_total [OF this, of "[]" 0 0] obtain out where
    "validate_loop parse alpha eps p tolT tolW pivot data [0..<length data - 1] [] 0 0 = Inr out"
    by blast
  then show "\<exists>results summ.
      validate_sequence parse data alpha eps p tolT tolW pivot = Inr (results, summ)"
    using a by (cases out) (simp add: validate_sequence_def)
next
  assume a: "2 \<le> length data \<and>
    (\<exists>i<length data - 1. \<exists>e.
        validate_step parse (data ! i) (data ! (i + 1)) alpha eps p tolT tolW pivot = Inl e)"
  then obtain i e where i: "i < length data - 1"
    "validate_step parse (data ! i) (data ! (i + 1)) alpha eps p tolT tolW pivot = Inl e"
    by blast
  have "\<exists>e'. validate_loop parse alpha eps p tolT tolW pivot data [0..<length data - 1] [] 0 0
           = Inl e'"
    by (rule validate_loop_raises [of i _ _ _ _ _ _ _ _ _ e]) (use i in simp_all)
  then show "\<exists>e. validate_sequence parse data alpha eps p tolT tolW pivot = Inl e"
    using a by (auto simp add: validate_sequence_def)
next
  assume a: "validate_sequence parse data alpha eps p tolT tolW pivot = Inr (results, summ)"
  then have len: "2 \<le> length data"
    by (auto simp add: validate_sequence_def split: if_splits)
  with a obtain pT pW where
    loop: "validate_loop parse alpha eps p tolT tolW pivot data [0..<length data - 1] [] 0 0
             = Inr (results, pT, pW)"
    and summ: "summ = \<lparr>total_steps = length data - 1, transport_pass = pT, weld_pass = pW,
                   transport_pass_rate =
                     (if length data - 1 > 0 then real pT / real (length data - 1) else 0),
                   weld_pass_rate =
                     (if length data - 1 > 0 then real pW / real (length data - 1) else 0)\<rparr>"
    by (auto simp add: validate_sequence_def Let_def and_then_Inr_iff)
  from validate_loop_Inr [OF loop] obtain new where
    new: "results = [] @ new" "map vr_idx new = [0..<length data - 1]"
      "\<forall>k<length [0..<length data - 1].
          validate_step parse (data ! ([0..<length data - 1] ! k))
            (data ! ([0..<length data - 1] ! k + 1)) alpha eps p tolT tolW pivot
            = Inr (validation_record.truncate (new ! k))"
      "pT = 0 + length (filter (\<lambda>r. vr_okT r = 1) new)"
      "pW = 0 + length (filter (\<lambda>r. vr_okW r = 1) new)"
    by blast
  have lr: "length results = length data - 1"
    using new(1,2) by (metis append_Nil length_map length_upt minus_nat.diff_0)
  show "2 \<le> length data" by (rule len)
  show "length results = length data - 1" by (rule lr)
  show "map vr_idx results = [0..<length data - 1]" using new(1,2) by simp
  show "\<forall>i<length data - 1.
          validate_step parse (data ! i) (data ! (i + 1)) alpha eps p tolT tolW pivot
            = Inr (validation_record.truncate (results ! i))"
    using new(1,3) by simp
  show "total_steps summ = length data - 1" by (simp add: summ)
  show "transport_pass summ = length (filter (\<lambda>r. vr_okT r = 1) results)"
    using new(1,4) by (simp add: summ)
  show "weld_pass summ = length (filter (\<lambda>r. vr_okW r = 1) results)"
    using new(1,5) by (simp add: summ)
qed

theorem validate_sequence_contract_witness:
  "validate_sequence (\<lambda>s. None) [audit_row (1 / 2) (1 / 5) 1 (- (1 / 10))]
     1 (1 / 10 ^ 8) 3 (1 / 10 ^ 9) (1 / 10 ^ 12) (99 / 100) = Inl ValueError \<and>
   validate_sequence (\<lambda>s. None)
     [audit_row (1 / 2) (1 / 5) 1 (- (1 / 10)), audit_row (1 / 2) (1 / 5) 1 (- (1 / 10)),
      audit_row (1 / 2) (1 / 5) 1 (- (1 / 10))]
     1 (1 / 10 ^ 8) 3 (1 / 10 ^ 9) (1 / 10 ^ 12) (99 / 100)
   = Inr ([\<lparr>vr_omega_n = 1 / 2, vr_omega_np1 = 1 / 2, vr_face_n = ''normal'',
            vr_face_np1 = ''normal'', vr_U_n = 1 / 10, vr_U_np1 = 1 / 10, vr_U_pred = 1 / 10,
            vr_rT = 0, vr_rW = 0, vr_okT = 1, vr_okW = 1, vr_idx = 0\<rparr>,
           \<lparr>vr_omega_n = 1 / 2, vr_omega_np1 = 1 / 2, vr_face_n = ''normal'',
            vr_face_np1 = ''normal'', vr_U_n = 1 / 10, vr_U_np1 = 1 / 10, vr_U_pred = 1 / 10,
            vr_rT = 0, vr_rW = 0, vr_okT = 1, vr_okW = 1, vr_idx = 1\<rparr>],
          \<lparr>total_steps = 2, transport_pass = 2, weld_pass = 2, transport_pass_rate = 1,
           weld_pass_rate = 1\<rparr>)"
proof -
  let ?row = "audit_row (1 / 2) (1 / 5) 1 (- (1 / 10))"
  let ?rs = "[\<lparr>vr_omega_n = 1 / 2, vr_omega_np1 = 1 / 2, vr_face_n = ''normal'',
            vr_face_np1 = ''normal'', vr_U_n = 1 / 10, vr_U_np1 = 1 / 10, vr_U_pred = 1 / 10,
            vr_rT = 0, vr_rW = 0, vr_okT = 1, vr_okW = 1, vr_idx = 0\<rparr>,
           \<lparr>vr_omega_n = 1 / 2, vr_omega_np1 = 1 / 2, vr_face_n = ''normal'',
            vr_face_np1 = ''normal'', vr_U_n = 1 / 10, vr_U_np1 = 1 / 10, vr_U_pred = 1 / 10,
            vr_rT = 0, vr_rW = 0, vr_okT = 1, vr_okW = 1, vr_idx = 1\<rparr>]"
  let ?summ = "\<lparr>total_steps = 2, transport_pass = 2, weld_pass = 2, transport_pass_rate = 1,
           weld_pass_rate = 1\<rparr>"
  have short: "length [?row] < 2" by simp
  have h: "validate_sequence (\<lambda>s. None) [?row, ?row, ?row]
     1 (1 / 10 ^ 8) 3 (1 / 10 ^ 9) (1 / 10 ^ 12) (99 / 100) = Inr (?rs, ?summ)"
    by (simp add: validate_sequence_def step_eval upt_rec with_idx_def validation_record.defs
        indexed_record.defs)
  have "validate_sequence (\<lambda>s. None) [?row]
     1 (1 / 10 ^ 8) 3 (1 / 10 ^ 9) (1 / 10 ^ 12) (99 / 100) = Inl ValueError"
    using validate_sequence_contract [of "[?row]", THEN conjunct1, rule_format, OF short] .
  moreover have "2 \<le> length [?row, ?row, ?row] \<and> length ?rs = length [?row, ?row, ?row] - 1 \<and>
     total_steps ?summ = length [?row, ?row, ?row] - 1 \<and>
     transport_pass ?summ = length (filter (\<lambda>r. vr_okT r = 1) ?rs) \<and>
     weld_pass ?summ = length (filter (\<lambda>r. vr_okW r = 1) ?rs)"
    using validate_sequence_contract [of "[?row, ?row, ?row]" "\<lambda>s. None" 1 "1 / 10 ^ 8" 3
        "1 / 10 ^ 9" "1 / 10 ^ 12" "99 / 100" ?rs ?summ,
        THEN conjunct2, THEN conjunct2, THEN conjunct2, rule_format, OF h]
    by blast
  ultimately show ?thesis using h by blast
qed

section \<open>Face selection policy and the guard flag\<close>

lemma validate_step_faces:
  assumes "validate_step parse row_n row_np1 alpha eps p tolT tolW pivot = Inr res"
  shows "vr_face_n res = choose_face (vr_omega_n res) (row_guard row_n) eps pivot"
    and "vr_face_np1 res = choose_face (vr_omega_np1 res) (row_guard row_np1) eps pivot"
    and "and_then (row_get row_n ''omega'') (py_float parse) = Inr (vr_omega_n res)"
    and "and_then (row_get row_np1 ''omega'') (py_float parse) = Inr (vr_omega_np1 res)"
proof -
  from assms obtain om_n C_n tau_n k_n U_n om_np1 C_np1 tau_np1 k_np1 U_np1 where
    fn: "row_fields parse row_n = Inr (om_n, C_n, tau_n, k_n, U_n)" and
    fnp1: "row_fields parse row_np1 = Inr (om_np1, C_np1, tau_np1, k_np1, U_np1)" and
    res: "vr_omega_n res = om_n" "vr_omega_np1 res = om_np1"
      "vr_face_n res = choose_face om_n (row_guard row_n) eps pivot"
      "vr_face_np1 res = choose_face om_np1 (row_guard row_np1) eps pivot"
    by (rule validate_step_InrD) simp
  show "vr_face_n res = choose_face (vr_omega_n res) (row_guard row_n) eps pivot"
    and "vr_face_np1 res = choose_face (vr_omega_np1 res) (row_guard row_np1) eps pivot"
    using res by simp_all
  show "and_then (row_get row_n ''omega'') (py_float parse) = Inr (vr_omega_n res)"
    and "and_then (row_get row_np1 ''omega'') (py_float parse) = Inr (vr_omega_np1 res)"
    using fn fnp1 res by (simp_all add: row_fields_Inr_iff)
qed

lemma row_guard_cell:
  "r ''guard_on'' = Some v \<Longrightarrow> py_str v = Some s \<Longrightarrow>
     row_guard r = (strip s \<in> {''1'', ''true'', ''True'', ''TRUE''})"
  "r ''guard_on'' = Some (PyFloat x) \<Longrightarrow> row_guard r = False"
  by (simp_all add: row_guard_def to_bool_flag_py_str)

lemma choose_face_exact_iff:
  "choose_face omega guard_on eps pivot = ''exact'' \<longleftrightarrow> guard_on \<or> pivot \<le> omega"
  "choose_face omega guard_on eps pivot = ''normal'' \<longleftrightarrow> \<not> (guard_on \<or> pivot \<le> omega)"
  by (simp_all add: choose_face_def)

text \<open>
  C9. \<^verbatim>\<open>choose_face\<close> returns \<^verbatim>\<open>"exact"\<close> if and only if \<open>guard_on\<close> holds or
  \<open>omega \<ge> pivot\<close>, and \<^verbatim>\<open>"normal"\<close> otherwise. The guard flag of a row is true
  exactly when the stripped string of its \<^verbatim>\<open>guard_on\<close> cell is one of \<^verbatim>\<open>"1"\<close>,
  \<^verbatim>\<open>"true"\<close>, \<^verbatim>\<open>"True"\<close>, \<^verbatim>\<open>"TRUE"\<close>; a row without the cell has the flag
  false. This is the flag \<^verbatim>\<open>validate_step\<close> uses: in every record it returns, the face
  of each row is \<^verbatim>\<open>"exact"\<close> exactly when the stripped string of that row's
  \<^verbatim>\<open>guard_on\<close> cell is one of the four words or the row's \<open>omega\<close> is at least
  \<open>pivot\<close>, and \<^verbatim>\<open>"normal"\<close> otherwise. Hence two rows with \<open>omega = 0.5\<close> and no
  \<^verbatim>\<open>guard_on\<close> cell are both put on the normal face (with the default
  \<open>pivot = 0.99\<close>).
\<close>

theorem choose_face_policy:
  "(choose_face omega guard_on eps pivot = ''exact'' \<longleftrightarrow> guard_on \<or> omega \<ge> pivot) \<and>
   (choose_face omega guard_on eps pivot = ''normal'' \<longleftrightarrow> \<not> (guard_on \<or> omega \<ge> pivot)) \<and>
   (to_bool_flag (PyStr s) \<longleftrightarrow> strip s \<in> {''1'', ''true'', ''True'', ''TRUE''}) \<and>
   (r ''guard_on'' = Some (PyStr s)
      \<longrightarrow> (row_guard r \<longleftrightarrow> strip s \<in> {''1'', ''true'', ''True'', ''TRUE''})) \<and>
   (r ''guard_on'' = None \<longrightarrow> \<not> row_guard r) \<and>
   (row_n ''guard_on'' = None \<and> row_np1 ''guard_on'' = None \<and>
    validate_step parse row_n row_np1 alpha eps p tolT tolW (99 / 100) = Inr res \<and>
    vr_omega_n res = 1 / 2 \<and> vr_omega_np1 res = 1 / 2
      \<longrightarrow> vr_face_n res = ''normal'' \<and> vr_face_np1 res = ''normal'') \<and>
   (py_str v = Some s
      \<longrightarrow> (to_bool_flag v \<longleftrightarrow> strip s \<in> {''1'', ''true'', ''True'', ''TRUE''})) \<and>
   (validate_step parse row_n row_np1 alpha eps p tolT tolW pivot = Inr res \<longrightarrow>
      and_then (row_get row_n ''omega'') (py_float parse) = Inr (vr_omega_n res) \<and>
      and_then (row_get row_np1 ''omega'') (py_float parse) = Inr (vr_omega_np1 res) \<and>
      (vr_face_n res = ''normal'' \<longleftrightarrow> vr_face_n res \<noteq> ''exact'') \<and>
      (vr_face_np1 res = ''normal'' \<longleftrightarrow> vr_face_np1 res \<noteq> ''exact'') \<and>
      (row_n ''guard_on'' = None \<longrightarrow>
         (vr_face_n res = ''exact'' \<longleftrightarrow> pivot \<le> vr_omega_n res)) \<and>
      (row_n ''guard_on'' = Some v \<and> py_str v = Some s \<longrightarrow>
         (vr_face_n res = ''exact'' \<longleftrightarrow>
            strip s \<in> {''1'', ''true'', ''True'', ''TRUE''} \<or> pivot \<le> vr_omega_n res)) \<and>
      (row_n ''guard_on'' = Some (PyFloat x) \<longrightarrow>
         (vr_face_n res = ''exact'' \<longleftrightarrow> pivot \<le> vr_omega_n res)) \<and>
      (row_np1 ''guard_on'' = None \<longrightarrow>
         (vr_face_np1 res = ''exact'' \<longleftrightarrow> pivot \<le> vr_omega_np1 res)) \<and>
      (row_np1 ''guard_on'' = Some v \<and> py_str v = Some s \<longrightarrow>
         (vr_face_np1 res = ''exact'' \<longleftrightarrow>
            strip s \<in> {''1'', ''true'', ''True'', ''TRUE''} \<or> pivot \<le> vr_omega_np1 res)) \<and>
      (row_np1 ''guard_on'' = Some (PyFloat x) \<longrightarrow>
         (vr_face_np1 res = ''exact'' \<longleftrightarrow> pivot \<le> vr_omega_np1 res)))"
proof -
  have scen: "vr_face_n res = ''normal'' \<and> vr_face_np1 res = ''normal''"
    if g: "row_n ''guard_on'' = None" "row_np1 ''guard_on'' = None"
      and v: "validate_step parse row_n row_np1 alpha eps p tolT tolW (99 / 100) = Inr res"
      and om: "vr_omega_n res = 1 / 2" "vr_omega_np1 res = 1 / 2"
    using validate_step_faces(1,2) [OF v] g om
    by (simp add: row_guard_missing choose_face_def)
  have step: "and_then (row_get row_n ''omega'') (py_float parse) = Inr (vr_omega_n res) \<and>
      and_then (row_get row_np1 ''omega'') (py_float parse) = Inr (vr_omega_np1 res) \<and>
      (vr_face_n res = ''normal'' \<longleftrightarrow> vr_face_n res \<noteq> ''exact'') \<and>
      (vr_face_np1 res = ''normal'' \<longleftrightarrow> vr_face_np1 res \<noteq> ''exact'') \<and>
      (row_n ''guard_on'' = None \<longrightarrow>
         (vr_face_n res = ''exact'' \<longleftrightarrow> pivot \<le> vr_omega_n res)) \<and>
      (row_n ''guard_on'' = Some v \<and> py_str v = Some s \<longrightarrow>
         (vr_face_n res = ''exact'' \<longleftrightarrow>
            strip s \<in> {''1'', ''true'', ''True'', ''TRUE''} \<or> pivot \<le> vr_omega_n res)) \<and>
      (row_n ''guard_on'' = Some (PyFloat x) \<longrightarrow>
         (vr_face_n res = ''exact'' \<longleftrightarrow> pivot \<le> vr_omega_n res)) \<and>
      (row_np1 ''guard_on'' = None \<longrightarrow>
         (vr_face_np1 res = ''exact'' \<longleftrightarrow> pivot \<le> vr_omega_np1 res)) \<and>
      (row_np1 ''guard_on'' = Some v \<and> py_str v = Some s \<longrightarrow>
         (vr_face_np1 res = ''exact'' \<longleftrightarrow>
            strip s \<in> {''1'', ''true'', ''True'', ''TRUE''} \<or> pivot \<le> vr_omega_np1 res)) \<and>
      (row_np1 ''guard_on'' = Some (PyFloat x) \<longrightarrow>
         (vr_face_np1 res = ''exact'' \<longleftrightarrow> pivot \<le> vr_omega_np1 res))"
    if v: "validate_step parse row_n row_np1 alpha eps p tolT tolW pivot = Inr res"
  proof -
    note f = validate_step_faces [OF v]
    have n: "vr_face_n res = ''exact'' \<longleftrightarrow> row_guard row_n \<or> pivot \<le> vr_omega_n res"
      "vr_face_n res = ''normal'' \<longleftrightarrow> \<not> (row_guard row_n \<or> pivot \<le> vr_omega_n res)"
      unfolding f(1) by (rule choose_face_exact_iff)+
    have np1: "vr_face_np1 res = ''exact'' \<longleftrightarrow> row_guard row_np1 \<or> pivot \<le> vr_omega_np1 res"
      "vr_face_np1 res = ''normal'' \<longleftrightarrow> \<not> (row_guard row_np1 \<or> pivot \<le> vr_omega_np1 res)"
      unfolding f(2) by (rule choose_face_exact_iff)+
    show ?thesis
      using f(3,4) n np1 row_guard_missing [of row_n] row_guard_missing [of row_np1]
        row_guard_cell [of row_n] row_guard_cell [of row_np1]
      by blast
  qed
  have "r ''guard_on'' = None \<longrightarrow> \<not> row_guard r"
    by (simp add: row_guard_missing)
  moreover have "r ''guard_on'' = Some (PyStr s)
      \<longrightarrow> (row_guard r \<longleftrightarrow> strip s \<in> {''1'', ''true'', ''True'', ''TRUE''})"
    by (simp add: row_guard_def)
  moreover have "to_bool_flag (PyStr s) \<longleftrightarrow> strip s \<in> {''1'', ''true'', ''True'', ''TRUE''}"
    by simp
  moreover have "py_str v = Some s
      \<longrightarrow> (to_bool_flag v \<longleftrightarrow> strip s \<in> {''1'', ''true'', ''True'', ''TRUE''})"
    by (simp add: to_bool_flag_py_str)
  moreover have "choose_face omega guard_on eps pivot = ''exact'' \<longleftrightarrow> guard_on \<or> omega \<ge> pivot"
    "choose_face omega guard_on eps pivot = ''normal'' \<longleftrightarrow> \<not> (guard_on \<or> omega \<ge> pivot)"
    by (simp_all add: choose_face_def)
  ultimately show ?thesis using scen step by blast
qed

theorem choose_face_policy_witness:
  "validate_step float_of_cell (csv_row ''0.5'' ''0.2'' ''1'' ''-0.1'')
     (csv_row ''0.5'' ''0.2'' ''1'' ''-0.1'') 1 (1 / 10 ^ 8) 3 (1 / 10 ^ 9) (1 / 10 ^ 12)
     (99 / 100)
   = Inr \<lparr>vr_omega_n = 1 / 2, vr_omega_np1 = 1 / 2, vr_face_n = ''normal'',
          vr_face_np1 = ''normal'', vr_U_n = 1 / 10, vr_U_np1 = 1 / 10, vr_U_pred = 1 / 10,
          vr_rT = 0, vr_rW = 0, vr_okT = 1, vr_okW = 1\<rparr> \<and>
   csv_row ''0.5'' ''0.2'' ''1'' ''-0.1'' ''guard_on'' = None \<and>
   \<not> row_guard (csv_row ''0.5'' ''0.2'' ''1'' ''-0.1'') \<and>
   row_guard ((csv_row ''0.5'' ''0.2'' ''1'' ''-0.1'')(''guard_on'' \<mapsto> PyStr '' TRUE '')) \<and>
   \<not> row_guard ((csv_row ''0.5'' ''0.2'' ''1'' ''-0.1'')(''guard_on'' \<mapsto> PyStr ''yes'')) \<and>
   choose_face (1 / 2) False (1 / 10 ^ 8) (99 / 100) = ''normal'' \<and>
   choose_face (1 / 2) True (1 / 10 ^ 8) (99 / 100) = ''exact'' \<and>
   choose_face (99 / 100) False (1 / 10 ^ 8) (99 / 100) = ''exact'' \<and>
   validate_step float_of_cell
     ((csv_row ''0.5'' ''0.2'' ''1'' ''-0.1'')(''guard_on'' \<mapsto> PyStr ''1''))
     (csv_row ''0.5'' ''0.2'' ''1'' ''-0.1'') 1 (1 / 10 ^ 8) 3 (1 / 10 ^ 9) (1 / 10 ^ 12)
     (99 / 100)
   = Inr \<lparr>vr_omega_n = 1 / 2, vr_omega_np1 = 1 / 2, vr_face_n = ''exact'',
          vr_face_np1 = ''normal'', vr_U_n = 1 / 10, vr_U_np1 = 1 / 10, vr_U_pred = 1 / 10,
          vr_rT = 0, vr_rW = 0, vr_okT = 1, vr_okW = 1\<rparr> \<and>
   validate_step float_of_cell
     (csv_row ''0.5'' ''0.2'' ''1'' ''-0.1'')
     ((csv_row ''0.5'' ''0.2'' ''1'' ''-0.1'')(''guard_on'' \<mapsto> PyBool True))
     1 (1 / 10 ^ 8) 3 (1 / 10 ^ 9) (1 / 10 ^ 12) (99 / 100)
   = Inr \<lparr>vr_omega_n = 1 / 2, vr_omega_np1 = 1 / 2, vr_face_n = ''normal'',
          vr_face_np1 = ''exact'', vr_U_n = 1 / 10, vr_U_np1 = 1 / 10, vr_U_pred = 1 / 10,
          vr_rT = 0, vr_rW = 0, vr_okT = 1, vr_okW = 1\<rparr> \<and>
   to_bool_flag (PyInt 1) \<and> \<not> to_bool_flag (PyInt 0) \<and> \<not> to_bool_flag (PyInt 11) \<and>
   to_bool_flag (PyBool True) \<and> \<not> to_bool_flag (PyBool False) \<and> \<not> to_bool_flag PyNone"
proof -
  let ?row = "csv_row ''0.5'' ''0.2'' ''1'' ''-0.1''"
  let ?res = "\<lparr>vr_omega_n = 1 / 2, vr_omega_np1 = 1 / 2, vr_face_n = ''normal'',
          vr_face_np1 = ''normal'', vr_U_n = 1 / 10, vr_U_np1 = 1 / 10, vr_U_pred = 1 / 10,
          vr_rT = 0, vr_rW = 0, vr_okT = 1, vr_okW = 1\<rparr>"
  let ?resg = "\<lparr>vr_omega_n = 1 / 2, vr_omega_np1 = 1 / 2, vr_face_n = ''exact'',
          vr_face_np1 = ''normal'', vr_U_n = 1 / 10, vr_U_np1 = 1 / 10, vr_U_pred = 1 / 10,
          vr_rT = 0, vr_rW = 0, vr_okT = 1, vr_okW = 1\<rparr>"
  let ?resb = "\<lparr>vr_omega_n = 1 / 2, vr_omega_np1 = 1 / 2, vr_face_n = ''normal'',
          vr_face_np1 = ''exact'', vr_U_n = 1 / 10, vr_U_np1 = 1 / 10, vr_U_pred = 1 / 10,
          vr_rT = 0, vr_rW = 0, vr_okT = 1, vr_okW = 1\<rparr>"
  have g: "?row ''guard_on'' = None" by (simp add: csv_row_def)
  have h: "validate_step float_of_cell ?row ?row 1 (1 / 10 ^ 8) 3 (1 / 10 ^ 9) (1 / 10 ^ 12)
     (99 / 100) = Inr ?res"
    by (simp add: step_eval)
  have hg: "validate_step float_of_cell (?row(''guard_on'' \<mapsto> PyStr ''1'')) ?row
     1 (1 / 10 ^ 8) 3 (1 / 10 ^ 9) (1 / 10 ^ 12) (99 / 100) = Inr ?resg"
    by (simp add: step_eval)
  have hb: "validate_step float_of_cell ?row (?row(''guard_on'' \<mapsto> PyBool True))
     1 (1 / 10 ^ 8) 3 (1 / 10 ^ 9) (1 / 10 ^ 12) (99 / 100) = Inr ?resb"
    by (simp add: step_eval)
  have t: "(?row(''guard_on'' \<mapsto> PyStr '' TRUE '')) ''guard_on'' = Some (PyStr '' TRUE '')"
    "(?row(''guard_on'' \<mapsto> PyStr ''yes'')) ''guard_on'' = Some (PyStr ''yes'')"
    "(?row(''guard_on'' \<mapsto> PyStr ''1'')) ''guard_on'' = Some (PyStr ''1'')"
    "(?row(''guard_on'' \<mapsto> PyBool True)) ''guard_on'' = Some (PyBool True)"
    by simp_all
  have ps: "py_str (PyStr ''1'') = Some ''1''" "py_str (PyBool True) = Some ''True''"
    "py_str (PyInt 1) = Some ''1''" "py_str (PyInt 0) = Some ''0''"
    "py_str (PyInt 11) = Some ''11''" "py_str (PyBool False) = Some ''False''"
    "py_str PyNone = Some ''None''"
    by (simp_all add: int_str_def)
  have "\<not> row_guard ?row"
    using choose_face_policy [of _ _ _ _ _ ?row, THEN conjunct2, THEN conjunct2, THEN conjunct2,
        THEN conjunct2, THEN conjunct1, rule_format, OF g] .
  moreover have "row_guard (?row(''guard_on'' \<mapsto> PyStr '' TRUE ''))"
    using choose_face_policy [of _ _ _ _ "'' TRUE ''" "?row(''guard_on'' \<mapsto> PyStr '' TRUE '')",
        THEN conjunct2, THEN conjunct2, THEN conjunct2, THEN conjunct1, rule_format, OF t(1)]
    by (simp add: strip_def is_space_def)
  moreover have "\<not> row_guard (?row(''guard_on'' \<mapsto> PyStr ''yes''))"
    using choose_face_policy [of _ _ _ _ "''yes''" "?row(''guard_on'' \<mapsto> PyStr ''yes'')",
        THEN conjunct2, THEN conjunct2, THEN conjunct2, THEN conjunct1, rule_format, OF t(2)]
    by (simp add: strip_def is_space_def)
  moreover have "choose_face (1 / 2) False (1 / 10 ^ 8) (99 / 100) = ''normal''"
    "choose_face (1 / 2) True (1 / 10 ^ 8) (99 / 100) = ''exact''"
    "choose_face (99 / 100) False (1 / 10 ^ 8) (99 / 100) = ''exact''"
    using choose_face_policy [of "1 / 2" False "1 / 10 ^ 8" "99 / 100"]
      choose_face_policy [of "1 / 2" True "1 / 10 ^ 8" "99 / 100"]
      choose_face_policy [of "99 / 100" False "1 / 10 ^ 8" "99 / 100"]
    by simp_all
  moreover have "vr_face_n ?res = ''normal'' \<and> vr_face_np1 ?res = ''normal''"
    using choose_face_policy [of _ _ "1 / 10 ^ 8" _ _ _ ?row ?row float_of_cell 1 3
        "1 / 10 ^ 9" "1 / 10 ^ 12" ?res,
        THEN conjunct2, THEN conjunct2, THEN conjunct2, THEN conjunct2, THEN conjunct2,
        THEN conjunct1]
      g h
    by simp
  moreover have "vr_face_n ?resg = ''exact'' \<longleftrightarrow>
      strip ''1'' \<in> {''1'', ''true'', ''True'', ''TRUE''} \<or> (99 / 100 :: real) \<le> vr_omega_n ?resg"
    using choose_face_policy [of _ _ "1 / 10 ^ 8" "99 / 100" "''1''" _
        "?row(''guard_on'' \<mapsto> PyStr ''1'')" ?row float_of_cell 1 3
        "1 / 10 ^ 9" "1 / 10 ^ 12" ?resg "PyStr ''1''",
        THEN conjunct2, THEN conjunct2, THEN conjunct2, THEN conjunct2, THEN conjunct2,
        THEN conjunct2, THEN conjunct2, rule_format, OF hg]
      t(3) ps(1)
    by blast
  moreover have "vr_face_np1 ?resb = ''exact'' \<longleftrightarrow>
      strip ''True'' \<in> {''1'', ''true'', ''True'', ''TRUE''} \<or> (99 / 100 :: real) \<le> vr_omega_np1 ?resb"
    using choose_face_policy [of _ _ "1 / 10 ^ 8" "99 / 100" "''True''" _
        ?row "?row(''guard_on'' \<mapsto> PyBool True)" float_of_cell 1 3
        "1 / 10 ^ 9" "1 / 10 ^ 12" ?resb "PyBool True",
        THEN conjunct2, THEN conjunct2, THEN conjunct2, THEN conjunct2, THEN conjunct2,
        THEN conjunct2, THEN conjunct2, rule_format, OF hb]
      t(4) ps(2)
    by blast
  moreover have "to_bool_flag (PyInt 1)" "\<not> to_bool_flag (PyInt 0)" "\<not> to_bool_flag (PyInt 11)"
    "to_bool_flag (PyBool True)" "\<not> to_bool_flag (PyBool False)" "\<not> to_bool_flag PyNone"
    using choose_face_policy [of _ _ _ _ "''1''" _ _ _ _ _ _ _ _ _ "PyInt 1",
        THEN conjunct2, THEN conjunct2, THEN conjunct2, THEN conjunct2, THEN conjunct2,
        THEN conjunct2, THEN conjunct1, rule_format, OF ps(3)]
      choose_face_policy [of _ _ _ _ "''0''" _ _ _ _ _ _ _ _ _ "PyInt 0",
        THEN conjunct2, THEN conjunct2, THEN conjunct2, THEN conjunct2, THEN conjunct2,
        THEN conjunct2, THEN conjunct1, rule_format, OF ps(4)]
      choose_face_policy [of _ _ _ _ "''11''" _ _ _ _ _ _ _ _ _ "PyInt 11",
        THEN conjunct2, THEN conjunct2, THEN conjunct2, THEN conjunct2, THEN conjunct2,
        THEN conjunct2, THEN conjunct1, rule_format, OF ps(5)]
      choose_face_policy [of _ _ _ _ "''True''" _ _ _ _ _ _ _ _ _ "PyBool True",
        THEN conjunct2, THEN conjunct2, THEN conjunct2, THEN conjunct2, THEN conjunct2,
        THEN conjunct2, THEN conjunct1, rule_format, OF ps(2)]
      choose_face_policy [of _ _ _ _ "''False''" _ _ _ _ _ _ _ _ _ "PyBool False",
        THEN conjunct2, THEN conjunct2, THEN conjunct2, THEN conjunct2, THEN conjunct2,
        THEN conjunct2, THEN conjunct1, rule_format, OF ps(6)]
      choose_face_policy [of _ _ _ _ "''None''" _ _ _ _ _ _ _ _ _ "PyNone",
        THEN conjunct2, THEN conjunct2, THEN conjunct2, THEN conjunct2, THEN conjunct2,
        THEN conjunct2, THEN conjunct1, rule_format, OF ps(7)]
    by (simp_all add: strip_def is_space_def)
  ultimately show ?thesis using g h hg hb by blast
qed

section \<open>Invariant pipeline: ranges of the records\<close>

lemmas pipe_eval =
  compute_invariants_def compute_omega_def compute_fidelity_def compute_entropy_def
  compute_curvature_def compute_tau_ret_def compute_integrity_coefficient_def
  compute_kappa_def compute_U_def classify_regime_def clip01_def py_log_def py_div_def
  py_index_def LOG_FLOOR_def Let_def upt_rec

lemma ln_eps_pos: "0 < ln (100000001 / 100000000 :: real)"
  by (simp add: ln_gt_zero)




lemma compute_entropy_Inl_iff:
  "compute_entropy omega eps = Inl e \<longleftrightarrow>
     e = ValueError \<and> (\<exists>w\<in>set omega. 1 - w + eps \<le> 0)"
proof (induction omega)
  case Nil
  then show ?case by (simp add: compute_entropy_def)
next
  case (Cons w ws)
  then show ?case
    by (auto simp add: compute_entropy_def py_log_def split: sum.splits)
qed









section \<open>Invariant pipeline: the return time\<close>

text \<open>
  C2. The claim bounds the candidate lags by \<open>min(i, 600)\<close>. The loop of
  \<^verbatim>\<open>compute_tau_ret\<close> runs over \<^verbatim>\<open>range(1, min(t + 1, max_h) + 1)\<close>, one lag
  more, and at \<open>dt = t + 1\<close> the subscript \<open>t - dt = -1\<close> reads the last element of the
  list. For the raw series \<open>[0, 0]\<close> (\<open>a = 0\<close>, \<open>b = 1\<close>) the threshold at \<open>i = 1\<close> is
  \<open>5e-4\<close>; the lags \<open>1\<close> and \<open>2\<close> both qualify and the code returns \<open>tau_R[1] = 2\<close>,
  which exceeds \<open>min(1, 600)\<close>. With the candidates of the claim there is one lag only,
  never two consecutive ones, and the value is the horizon \<open>600\<close>.
\<close>

theorem compute_tau_ret_wraps_counterexample:
  "compute_tau_ret (5 / 10 ^ 4) [0, 0] 1 600 2 = Inr 2 \<and>
   spec_tau_ret (5 / 10 ^ 4) [0, 0] 1 600 2 = Inr 600 \<and>
   \<not> (2::nat) \<le> min 1 600 \<and>
   compute_invariants [0, 0] 0 1 (1 / 10 ^ 8) 3 1 =
     Inr [\<lparr>inv_t = 0, inv_x_raw = 0, inv_y = 0, inv_xhat = 0, inv_omega = 0, inv_F = 1,
           inv_S = - ln (1 + 1 / 10 ^ 8), inv_C = 0, inv_tau_R = 1, inv_IC = 1 + 1 / 10 ^ 8,
           inv_kappa = ln (1 + 1 / 10 ^ 8), inv_U = 0, inv_regime = ''Stable''\<rparr>,
          \<lparr>inv_t = 1, inv_x_raw = 0, inv_y = 0, inv_xhat = 0, inv_omega = 0, inv_F = 1,
           inv_S = - ln (1 + 1 / 10 ^ 8), inv_C = 0, inv_tau_R = 2, inv_IC = 1 + 1 / 10 ^ 8,
           inv_kappa = ln (1 + 1 / 10 ^ 8), inv_U = 0, inv_regime = ''Stable''\<rparr>]"
  using ln_eps_pos by (simp add: pipe_eval spec_tau_ret_def)

section \<open>Invariant pipeline: logarithms\<close>

text \<open>
  C3. \<^verbatim>\<open>compute_kappa\<close> floors its argument and returns for every \<open>IC\<close>, but
  \<^verbatim>\<open>compute_entropy\<close> takes \<^verbatim>\<open>math.log(1.0 - w + eps)\<close> with no floor: at
  \<open>omega = 2\<close>, past the wall, it raises \<^verbatim>\<open>ValueError\<close>, and so does
  \<^verbatim>\<open>compute_invariants\<close> on the raw series \<open>[0, 2]\<close> with \<open>a = 0\<close>, \<open>b = 1\<close>.
\<close>

theorem compute_entropy_raises_past_wall:
  "compute_entropy [2] (1 / 10 ^ 8) = Inl ValueError \<and>
   compute_invariants [0, 2] 0 1 (1 / 10 ^ 8) 3 1 = Inl ValueError \<and>
   compute_kappa (- 1) = Inr (ln (1 / 10 ^ 300))"
  by (simp add: pipe_eval)

end
